theory Spec2Isabelle
  imports Main "HOL-Library.Multiset"
begin


section \<open>Text and character classes\<close>

text \<open>
  The script works on Python \<open>str\<close> values. A \<^typ>\<open>string\<close> stands for such a text with one
  \<^typ>\<open>char\<close> per code point, so the model covers the code points U+0000 to U+00FF. The classes
  below are the ones Python's \<open>re\<close> module uses for \<open>str\<close> patterns on that range:
  \<open>\d\<close> is the decimal digits, \<open>\s\<close> (and \<open>str.strip\<close>) the white space characters,
  \<open>\w\<close> the alphanumeric characters and the underscore.
\<close>

definition is_digit :: "char \<Rightarrow> bool" where
  "is_digit c = (let n = (of_char c :: nat) in 48 \<le> n \<and> n \<le> 57)"

definition is_space :: "char \<Rightarrow> bool" where
  "is_space c = (let n = (of_char c :: nat) in
     (9 \<le> n \<and> n \<le> 13) \<or> (28 \<le> n \<and> n \<le> 32) \<or> n = 133 \<or> n = 160)"

definition is_word :: "char \<Rightarrow> bool" where
  "is_word c = (let n = (of_char c :: nat) in
     (48 \<le> n \<and> n \<le> 57) \<or> (65 \<le> n \<and> n \<le> 90) \<or> n = 95 \<or> (97 \<le> n \<and> n \<le> 122) \<or>
     n = 170 \<or> n = 178 \<or> n = 179 \<or> n = 181 \<or> n = 185 \<or> n = 186 \<or>
     (188 \<le> n \<and> n \<le> 190) \<or> (192 \<le> n \<and> n \<le> 214) \<or> (216 \<le> n \<and> n \<le> 246) \<or>
     (248 \<le> n \<and> n \<le> 255))"

section \<open>Regular expressions as Python's \<open>re\<close> matches them\<close>

text \<open>
  Only the constructs that occur in the script's patterns. A quantifier is always applied to
  a single character class there, apart from the optional non-capturing group of the first
  pattern and the optional \<open>x\<close> of \<open>tsx?\<close>.
\<close>

datatype cls =
    Word                \<comment> \<open>\<open>\w\<close>\<close>
  | Space               \<comment> \<open>\<open>\s\<close>\<close>
  | Digit               \<comment> \<open>\<open>\d\<close>\<close>
  | AnyChar             \<comment> \<open>\<open>.\<close>: any character but the newline\<close>
  | OneOf string        \<comment> \<open>\<open>[...]\<close>\<close>
  | NoneOf string       \<comment> \<open>\<open>[^...]\<close>\<close>

fun cls_ok :: "cls \<Rightarrow> char \<Rightarrow> bool" where
  "cls_ok Word c = is_word c"
| "cls_ok Space c = is_space c"
| "cls_ok Digit c = is_digit c"
| "cls_ok AnyChar c = (c \<noteq> CHR 0x0A)"
| "cls_ok (OneOf cs) c = (c \<in> set cs)"
| "cls_ok (NoneOf cs) c = (c \<notin> set cs)"

datatype re =
    Chars string        \<comment> \<open>a run of literal characters\<close>
  | One cls             \<comment> \<open>one character of a class\<close>
  | Many cls            \<comment> \<open>\<open>c*\<close>, greedy\<close>
  | Many1 cls           \<comment> \<open>\<open>c+\<close>, greedy\<close>
  | Few cls             \<comment> \<open>\<open>c*?\<close>, lazy\<close>
  | Few1 cls            \<comment> \<open>\<open>c+?\<close>, lazy\<close>
  | Maybe re            \<comment> \<open>\<open>r?\<close>, greedy\<close>
  | Then re re          \<comment> \<open>concatenation\<close>
  | Or re re            \<comment> \<open>\<open>a|b\<close>, the left alternative first\<close>
  | Group nat re        \<comment> \<open>capturing group number n\<close>
  | Back nat            \<comment> \<open>back-reference \<open>\n\<close>\<close>
  | End                 \<comment> \<open>\<open>$\<close>: at the end, or before a newline that ends the text\<close>

type_synonym caps = "nat \<rightharpoonup> string"

text \<open>
  A backtracking matcher in continuation style: \<open>k\<close> is what remains of the pattern, and
  the first alternative whose continuation succeeds wins, which is the order in which
  Python's engine tries them.
\<close>

fun star_greedy :: "(char \<Rightarrow> bool) \<Rightarrow> (string \<Rightarrow> 'a option) \<Rightarrow> string \<Rightarrow> 'a option" where
  "star_greedy p k [] = k []"
| "star_greedy p k (x # xs) =
     (if p x then (case star_greedy p k xs of Some r \<Rightarrow> Some r | None \<Rightarrow> k (x # xs))
      else k (x # xs))"

fun star_lazy :: "(char \<Rightarrow> bool) \<Rightarrow> (string \<Rightarrow> 'a option) \<Rightarrow> string \<Rightarrow> 'a option" where
  "star_lazy p k [] = k []"
| "star_lazy p k (x # xs) =
     (case k (x # xs) of Some r \<Rightarrow> Some r
      | None \<Rightarrow> if p x then star_lazy p k xs else None)"

fun rmatch :: "re \<Rightarrow> (string \<Rightarrow> caps \<Rightarrow> 'a option) \<Rightarrow> string \<Rightarrow> caps \<Rightarrow> 'a option" where
  "rmatch (Chars l) k s c =
     (if take (length l) s = l then k (drop (length l) s) c else None)"
| "rmatch (One p) k s c =
     (case s of [] \<Rightarrow> None | x # xs \<Rightarrow> if cls_ok p x then k xs c else None)"
| "rmatch (Many p) k s c = star_greedy (cls_ok p) (\<lambda>s'. k s' c) s"
| "rmatch (Many1 p) k s c =
     (case s of [] \<Rightarrow> None
      | x # xs \<Rightarrow> if cls_ok p x then star_greedy (cls_ok p) (\<lambda>s'. k s' c) xs else None)"
| "rmatch (Few p) k s c = star_lazy (cls_ok p) (\<lambda>s'. k s' c) s"
| "rmatch (Few1 p) k s c =
     (case s of [] \<Rightarrow> None
      | x # xs \<Rightarrow> if cls_ok p x then star_lazy (cls_ok p) (\<lambda>s'. k s' c) xs else None)"
| "rmatch (Maybe r) k s c =
     (case rmatch r k s c of Some y \<Rightarrow> Some y | None \<Rightarrow> k s c)"
| "rmatch (Then a b) k s c = rmatch a (\<lambda>s' c'. rmatch b k s' c') s c"
| "rmatch (Or a b) k s c =
     (case rmatch a k s c of Some y \<Rightarrow> Some y | None \<Rightarrow> rmatch b k s c)"
| "rmatch (Group n r) k s c =
     rmatch r (\<lambda>s' c'. k s' (c'(n \<mapsto> take (length s - length s') s))) s c"
| "rmatch (Back n) k s c =
     (case c n of None \<Rightarrow> None
      | Some g \<Rightarrow> if take (length g) s = g then k (drop (length g) s) c else None)"
| "rmatch End k s c = (if s = [] \<or> s = [CHR 0x0A] then k s c else None)"

text \<open>
  \<open>re.match\<close>: a match that starts at the first character. The result is the text after
  the match and the groups. A leading \<open>^\<close> of a pattern holds there and is not modelled.
\<close>

definition re_match :: "re \<Rightarrow> string \<Rightarrow> (string \<times> caps) option" where
  "re_match p s = rmatch p (\<lambda>s' c. Some (s', c)) s Map.empty"

text \<open>
  \<open>re.search\<close>: the first position, from the left, at which the pattern matches. The result
  is the groups of that match.
\<close>

fun re_search :: "re \<Rightarrow> string \<Rightarrow> caps option" where
  "re_search p [] = map_option snd (re_match p [])"
| "re_search p (x # xs) =
     (case re_match p (x # xs) of Some (rest, c) \<Rightarrow> Some c | None \<Rightarrow> re_search p xs)"

text \<open>
  \<open>re.sub\<close> with a function as replacement. The scan goes from left to right; where the
  pattern matches, the callback \<open>f\<close> gets the matched text (\<open>group(0)\<close>) and the groups and
  returns the replacement, and the scan goes on after the match; elsewhere one character is
  copied. The callbacks of the script add to a counter (\<open>nonlocal fixes\<close>): here a callback
  returns its increment with the replacement, and \<open>re_sub\<close> returns the sum. After an empty
  match the replacement is emitted and one character is copied, as Python does; no pattern
  of the script has an empty match.
\<close>

function re_sub :: "re \<Rightarrow> (string \<Rightarrow> caps \<Rightarrow> string \<times> nat) \<Rightarrow> string \<Rightarrow> string \<times> nat" where
  "re_sub p f s =
     (case re_match p s of
        Some (rest, c) \<Rightarrow>
          (let (r, n) = f (take (length s - length rest) s) c in
           if length rest < length s then
             (let (t, m) = re_sub p f rest in (r @ t, n + m))
           else
             (case s of [] \<Rightarrow> (r, n)
              | x # xs \<Rightarrow> (let (t, m) = re_sub p f xs in (r @ x # t, n + m))))
      | None \<Rightarrow>
          (case s of [] \<Rightarrow> ([], 0)
           | x # xs \<Rightarrow> (let (t, m) = re_sub p f xs in (x # t, m))))"
  by pat_completeness auto
termination
  by (relation "measure (\<lambda>(p, f, s). length s)") auto

subsection \<open>The string methods the script uses\<close>

text \<open>\<open>sub in s\<close>\<close>

fun py_in :: "string \<Rightarrow> string \<Rightarrow> bool" where
  "py_in sub [] = (sub = [])"
| "py_in sub (x # xs) = (take (length sub) (x # xs) = sub \<or> py_in sub xs)"

text \<open>\<open>s.strip()\<close>\<close>

definition strip :: "string \<Rightarrow> string" where
  "strip s = rev (dropWhile is_space (rev (dropWhile is_space s)))"

text \<open>\<open>s.startswith(p)\<close>\<close>

definition startswith :: "string \<Rightarrow> string \<Rightarrow> bool" where
  "startswith s p = (take (length p) s = p)"

text \<open>
  \<open>s.replace(old, new)\<close>: every occurrence of \<open>old\<close>, from the left and without overlap; an
  empty \<open>old\<close> matches before every character and at the end.
\<close>

fun replace_ne :: "string \<Rightarrow> string \<Rightarrow> string \<Rightarrow> string" where
  "replace_ne old new [] = []"
| "replace_ne old new (x # xs) =
     (if take (length old) (x # xs) = old
      then new @ replace_ne old new (drop (length old - 1) xs)
      else x # replace_ne old new xs)"

definition py_replace :: "string \<Rightarrow> string \<Rightarrow> string \<Rightarrow> string" where
  "py_replace s old new =
     (if old = [] then new @ concat (map (\<lambda>x. x # new) s) else replace_ne old new s)"

text \<open>\<open>s.split('\n')\<close>: never an empty list.\<close>

fun split_nl :: "string \<Rightarrow> string list" where
  "split_nl [] = [[]]"
| "split_nl (x # xs) =
     (if x = CHR 0x0A then [] # split_nl xs
      else (case split_nl xs of [] \<Rightarrow> [[x]] | l # ls \<Rightarrow> (x # l) # ls))"

text \<open>
  \<open>int(s)\<close> on a text of decimal digits, the only texts the parser passes to it. (The limit
  of recent interpreters on the number of digits is not modelled.)
\<close>

definition digit_val :: "char \<Rightarrow> nat" where
  "digit_val c = of_char c - 48"

definition py_int :: "string \<Rightarrow> nat" where
  "py_int s = foldl (\<lambda>n c. 10 * n + digit_val c) 0 s"

text \<open>A pattern written as the sequence of its parts.\<close>

fun seq :: "re list \<Rightarrow> re" where
  "seq [] = Chars []"
| "seq [r] = r"
| "seq (r # rs) = Then r (seq rs)"

abbreviation quote :: cls where
  "quote \<equiv> OneOf [CHR 0x27, CHR 0x22]"

section \<open>The diagnostic parser\<close>

record diag =
  line :: nat
  col :: nat
  code :: string
  message :: string

text \<open>\<open>^(.+?\.tsx?)\((\d+),(\d+)\): error (TS\d+): (.+)$\<close>\<close>

definition error_pattern :: re where
  "error_pattern = seq
     [Group 1 (seq [Few1 AnyChar, Chars ''.ts'', Maybe (Chars ''x'')]),
      Chars ''('', Group 2 (Many1 Digit), Chars '','', Group 3 (Many1 Digit),
      Chars ''): error '', Group 4 (seq [Chars ''TS'', Many1 Digit]),
      Chars '': '', Group 5 (Many1 AnyChar), End]"

text \<open>
  \<open>errors_by_file\<close> is a \<open>defaultdict(list)\<close>: a dictionary that keeps its keys in the order
  of their first insertion, here an association list in that order.
\<close>

type_synonym groups = "(string \<times> diag list) list"

fun append_to :: "groups \<Rightarrow> string \<Rightarrow> diag \<Rightarrow> groups" where
  "append_to [] k d = [(k, [d])]"
| "append_to ((k', ds) # g) k d =
     (if k' = k then (k', ds @ [d]) # g else (k', ds) # append_to g k d)"

definition parse_line :: "string \<Rightarrow> (string \<times> diag) option" where
  "parse_line l =
     (case re_match error_pattern l of
        None \<Rightarrow> None
      | Some (rest, c) \<Rightarrow>
          Some (the (c 1),
            \<lparr>line = py_int (the (c 2)), col = py_int (the (c 3)),
             code = the (c 4), message = the (c 5)\<rparr>))"

fun parse_loop :: "groups \<Rightarrow> string list \<Rightarrow> groups" where
  "parse_loop g [] = g"
| "parse_loop g (l # ls) =
     (case parse_line l of
        None \<Rightarrow> parse_loop g ls
      | Some (file_path, d) \<Rightarrow> parse_loop (append_to g file_path d) ls)"

definition parse_errors :: "string list \<Rightarrow> groups" where
  "parse_errors lines = parse_loop [] lines"

section \<open>The rule library\<close>

text \<open>
  Each of the script's three \<open>fix_\<close> functions reads a file, rewrites its text and writes
  it back. The rewriting of each is a function from the text to the new text and the value
  of the counter \<open>fixes\<close>; the reading and writing follow in the next section.
\<close>

subsection \<open>\<open>fix_supabase_never_types\<close>\<close>

text \<open>
  \<open>const\s+\{\s*data:\s*(\w+)(?:,\s*error:\s*(\w+))?\s*\}\s*=\s*await\s+supabase\s*\.from\(['"](\w+)['"]\)\s*\.select\(\<close>
\<close>

definition pattern1 :: re where
  "pattern1 = seq
     [Chars ''const'', Many1 Space, Chars ''{'', Many Space, Chars ''data:'', Many Space,
      Group 1 (Many1 Word),
      Maybe (seq [Chars '','', Many Space, Chars ''error:'', Many Space, Group 2 (Many1 Word)]),
      Many Space, Chars ''}'', Many Space, Chars ''='', Many Space, Chars ''await'',
      Many1 Space, Chars ''supabase'', Many Space, Chars ''.from('', One quote,
      Group 3 (Many1 Word), One quote, Chars '')'', Many Space, Chars ''.select('']"

definition add_type_assertion :: "string \<Rightarrow> caps \<Rightarrow> string \<times> nat" where
  "add_type_assertion m c =
     (let data_var = the (c 1); error_var = c 2; table = the (c 3) in
      if py_in '' as '' m then (m, 0)
      else (case error_var of
              Some ev \<Rightarrow>
                (''const { data: '' @ data_var @ '', error: '' @ ev @
                 '' } = await supabase.from('' @ [CHR 0x27] @ table @ [CHR 0x27] @ '').select('', 1)
            | None \<Rightarrow>
                (''const { data: '' @ data_var @
                 '' } = await supabase.from('' @ [CHR 0x27] @ table @ [CHR 0x27] @ '').select('', 1)))"

text \<open>\<open>\.(insert|update)\(([^)]+)\)\<close>\<close>

definition insert_update_pattern :: re where
  "insert_update_pattern = seq
     [Chars ''.'', Group 1 (Or (Chars ''insert'') (Chars ''update'')), Chars ''('',
      Group 2 (Many1 (NoneOf '')'')), Chars '')'']"

text \<open>\<open>^\w+$\<close>\<close>

definition identifier_pattern :: re where
  "identifier_pattern = seq [Many1 Word, End]"

definition fix_insert_update :: "string \<Rightarrow> caps \<Rightarrow> string \<times> nat" where
  "fix_insert_update m c =
     (let method = the (c 1); arg = the (c 2) in
      if py_in '' as '' arg then (m, 0)
      else if startswith (strip arg) ''{'' \<or> re_match identifier_pattern (strip arg) \<noteq> None
      then (''.'' @ method @ ''('' @ arg @ '' as any)'', 1)
      else (m, 0))"

text \<open>
  The text and the counter after the two substitutions (lines 49 to 90 of the script). The
  counter is shared by the two callbacks.
\<close>

definition supabase_rewrite :: "string \<Rightarrow> string \<times> nat" where
  "supabase_rewrite content =
     (let (content1, fixes1) = re_sub pattern1 add_type_assertion content;
          (content2, fixes2) = re_sub insert_update_pattern fix_insert_update content1
      in (content2, fixes1 + fixes2))"

subsection \<open>\<open>fix_any_to_never_errors\<close>\<close>

text \<open>
  \<open>\.eq\(['"](\w+)['"]\s*,\s*(\w+)\)\<close> and the same for \<open>.in\<close>. The replacement is a
  template, \<open>.eq(\'\1\', \2 as any)\<close> in a raw string: \<open>re.sub\<close> leaves an escape it does
  not know, such as \<open>\'\<close>, as it is, so the backslash stays in the result.
\<close>

definition eq_in_pattern :: "string \<Rightarrow> re" where
  "eq_in_pattern name = seq
     [Chars (''.'' @ name @ ''(''), One quote, Group 1 (Many1 Word), One quote, Many Space,
      Chars '','', Many Space, Group 2 (Many1 Word), Chars '')'']"

definition eq_in_template :: "string \<Rightarrow> string \<Rightarrow> caps \<Rightarrow> string \<times> nat" where
  "eq_in_template name m c =
     (''.'' @ name @ ''('' @ [CHR 0x5C, CHR 0x27] @ the (c 1) @ [CHR 0x5C, CHR 0x27] @ '', '' @
      the (c 2) @ '' as any)'', 0)"

fun any_loop :: "string list \<Rightarrow> string \<times> nat \<Rightarrow> string \<times> nat" where
  "any_loop [] (content, fixes) = (content, fixes)"
| "any_loop (name # names) (content, fixes) =
     (let new_content = fst (re_sub (eq_in_pattern name) (eq_in_template name) content) in
      if new_content \<noteq> content then any_loop names (new_content, fixes + 1)
      else any_loop names (content, fixes))"

definition any_rewrite :: "string \<Rightarrow> string \<times> nat" where
  "any_rewrite content = any_loop [''eq'', ''in''] (content, 0)"

subsection \<open>\<open>fix_error_handling\<close>\<close>

text \<open>
  \<open>catch\s*\((\w+)\)\s*\{([^}]*?)(?:logger\.error|console\.error)\s*\([^\)]*?,\s*\1\s*\)\<close>
\<close>

definition catch_pattern :: re where
  "catch_pattern = seq
     [Chars ''catch'', Many Space, Chars ''('', Group 1 (Many1 Word), Chars '')'', Many Space,
      Chars ''{'', Group 2 (Few (NoneOf ''}'')),
      Or (Chars ''logger.error'') (Chars ''console.error''), Many Space, Chars ''('',
      Few (NoneOf '')''), Chars '','', Many Space, Back 1, Many Space, Chars '')'']"

text \<open>\<open>\n(\s+)\<close>\<close>

definition indent_pattern :: re where
  "indent_pattern = seq [Chars [CHR 0x0A], Group 1 (Many1 Space)]"

definition fix_catch :: "string \<Rightarrow> caps \<Rightarrow> string \<times> nat" where
  "fix_catch m c =
     (let error_var = the (c 1); block_content = the (c 2) in
      if py_in (''const err = '' @ error_var @ '' instanceof Error'') block_content then (m, 0)
      else
        (let indent = (case re_search indent_pattern block_content of
                         Some ic \<Rightarrow> the (ic 1) | None \<Rightarrow> ''    '');
             error_handler = [CHR 0x0A] @ indent @ ''const err = '' @ error_var @
               '' instanceof Error ? '' @ error_var @ '' : new Error(String('' @ error_var @ ''));'';
             new_block = error_handler @ block_content;
             result = py_replace (py_replace m block_content new_block)
                        ('', '' @ error_var @ '')'') '', err)''
         in (result, 1)))"

definition catch_rewrite :: "string \<Rightarrow> string \<times> nat" where
  "catch_rewrite content = re_sub catch_pattern fix_catch content"

section \<open>Files, the checker and the run\<close>

text \<open>
  The file system maps a path to a file: its text, whether reading it succeeds and whether
  writing it succeeds. An exception that the script does not catch ends the run; it is the
  \<open>Inl\<close> result. The state also keeps the reads and writes that succeeded and the lines
  printed, in order.
\<close>

record file_node =
  text_of :: string
  readable :: bool
  writable :: bool

datatype error = ReadFailure string | WriteFailure string

datatype io = Read string | Write string string

datatype out =
    Running                     \<comment> \<open>"Running TypeScript compiler to find errors..."\<close>
  | TscError                    \<comment> \<open>"Error running tsc: ..."\<close>
  | Found nat nat               \<comment> \<open>"Found n errors in m files"\<close>
  | NoErrors                    \<comment> \<open>"No TypeScript errors found!"\<close>
  | TopHeader                   \<comment> \<open>"Top 10 files with most errors:"\<close>
  | TopFile nat string          \<comment> \<open>"  n - path"\<close>
  | Applying                    \<comment> \<open>"Applying fixes..."\<close>
  | Applied string nat          \<comment> \<open>"path: n pattern fixes applied"\<close>
  | AppliedTotal nat nat        \<comment> \<open>"Applied n fixes to m files"\<close>
  | Rerunning                   \<comment> \<open>"Re-running TypeScript compiler..."\<close>
  | Results nat nat int nat     \<comment> \<open>"Before", "After", "Fixed", "Files modified"\<close>

record state =
  files :: "string \<rightharpoonup> file_node"
  trace :: "io list"
  printed :: "out list"

type_synonym 'a action = "state \<Rightarrow> (error + 'a) \<times> state"

definition act_bind :: "'a action \<Rightarrow> ('a \<Rightarrow> 'b action) \<Rightarrow> 'b action" where
  "act_bind m f s = (case m s of (Inl e, s') \<Rightarrow> (Inl e, s') | (Inr a, s') \<Rightarrow> f a s')"

definition act_return :: "'a \<Rightarrow> 'a action" where
  "act_return a s = (Inr a, s)"

definition say :: "out \<Rightarrow> state \<Rightarrow> state" where
  "say l s = s\<lparr>printed := printed s @ [l]\<rparr>"

text \<open>\<open>Path.exists\<close>, \<open>Path.read_text\<close>, \<open>Path.write_text\<close>\<close>

definition path_exists :: "string \<Rightarrow> state \<Rightarrow> bool" where
  "path_exists p s = (files s p \<noteq> None)"

definition read_text :: "string \<Rightarrow> string action" where
  "read_text p s =
     (case files s p of
        None \<Rightarrow> (Inl (ReadFailure p), s)
      | Some f \<Rightarrow>
          if readable f then (Inr (text_of f), s\<lparr>trace := trace s @ [Read p]\<rparr>)
          else (Inl (ReadFailure p), s))"

definition write_text :: "string \<Rightarrow> string \<Rightarrow> unit action" where
  "write_text p t s =
     (case files s p of
        None \<Rightarrow>
          (Inr (), s\<lparr>files := (files s)(p \<mapsto> \<lparr>text_of = t, readable = True, writable = True\<rparr>),
                      trace := trace s @ [Write p t]\<rparr>)
      | Some f \<Rightarrow>
          if writable f
          then (Inr (), s\<lparr>files := (files s)(p \<mapsto> f\<lparr>text_of := t\<rparr>),
                           trace := trace s @ [Write p t]\<rparr>)
          else (Inl (WriteFailure p), s))"

text \<open>
  The end that the three \<open>fix_\<close> functions share: the file is written when the text has
  changed, and the function then returns the counter; otherwise it returns 0.
\<close>

definition fix_file :: "(string \<Rightarrow> string \<times> nat) \<Rightarrow> string \<Rightarrow> nat action" where
  "fix_file rewrite p =
     act_bind (read_text p) (\<lambda>original.
       (let (content, fixes) = rewrite original in
        if content \<noteq> original
        then act_bind (write_text p content) (\<lambda>_. act_return fixes)
        else act_return 0))"

definition fix_supabase_never_types :: "string \<Rightarrow> nat action" where
  "fix_supabase_never_types = fix_file supabase_rewrite"

definition fix_any_to_never_errors :: "string \<Rightarrow> nat action" where
  "fix_any_to_never_errors = fix_file any_rewrite"

definition fix_error_handling :: "string \<Rightarrow> nat action" where
  "fix_error_handling = fix_file catch_rewrite"

text \<open>
  The checker is outside the script: a run of it either makes \<open>subprocess.run\<close> raise (the
  program cannot be started) or completes with an exit status, which the script does not
  look at, and the two output streams. What it reports depends on the files it finds.
\<close>

datatype tsc = Raised | Completed int string string

type_synonym checker = "(string \<rightharpoonup> file_node) \<Rightarrow> tsc"

definition run_tsc :: "checker \<Rightarrow> state \<Rightarrow> string list \<times> state" where
  "run_tsc ck s =
     (case ck (files s) of
        Raised \<Rightarrow> ([], say TscError s)
      | Completed rc err out \<Rightarrow> (split_nl (if err \<noteq> [] then err else out), s))"

text \<open>
  \<open>sorted(..., key=lambda x: len(x[1]), reverse=True)\<close>. Python's sort is stable, and with
  \<open>reverse=True\<close> it reverses the list before and after a stable ascending sort, so that
  items with equal keys keep their order.
\<close>

definition sorted_files_of :: "groups \<Rightarrow> groups" where
  "sorted_files_of g = rev (sort_key (\<lambda>x. length (snd x)) (rev g))"

definition total_of :: "groups \<Rightarrow> nat" where
  "total_of g = sum_list (map (\<lambda>x. length (snd x)) g)"

text \<open>The three calls of the loop body (lines 197 to 200).\<close>

definition patch_file :: "string \<Rightarrow> nat action" where
  "patch_file p =
     act_bind (fix_supabase_never_types p) (\<lambda>f1.
     act_bind (fix_any_to_never_errors p) (\<lambda>f2.
     act_bind (fix_error_handling p) (\<lambda>f3. act_return (f1 + f2 + f3))))"

text \<open>The loop over the sorted files; the pair is \<open>total_fixes\<close> and \<open>files_modified\<close>.\<close>

fun patch_loop :: "string list \<Rightarrow> nat \<times> nat \<Rightarrow> (nat \<times> nat) action" where
  "patch_loop [] acc s = (Inr acc, s)"
| "patch_loop (p # ps) (total_fixes, files_modified) s =
     (if \<not> path_exists p s then patch_loop ps (total_fixes, files_modified) s
      else (case patch_file p s of
              (Inl e, s') \<Rightarrow> (Inl e, s')
            | (Inr fixes, s') \<Rightarrow>
                if fixes > 0
                then patch_loop ps (total_fixes + fixes, files_modified + 1) (say (Applied p fixes) s')
                else patch_loop ps (total_fixes, files_modified) s'))"

definition main :: "checker \<Rightarrow> int action" where
  "main ck s0 =
     (let (error_lines, s1) = run_tsc ck (say Running s0);
          errors_by_file = parse_errors error_lines;
          total_errors = total_of errors_by_file;
          s2 = say (Found total_errors (length errors_by_file)) s1
      in if errors_by_file = [] then (Inr 0, say NoErrors s2)
         else
           (let sorted_files = sorted_files_of errors_by_file;
                s3 = fold (\<lambda>(file_path, errors). say (TopFile (length errors) file_path))
                       (take 10 sorted_files) (say TopHeader s2)
            in case patch_loop (map fst sorted_files) (0, 0) (say Applying s3) of
                 (Inl e, s4) \<Rightarrow> (Inl e, s4)
               | (Inr (total_fixes, files_modified), s4) \<Rightarrow>
                   (let (error_lines', s5) =
                          run_tsc ck (say Rerunning (say (AppliedTotal total_fixes files_modified) s4));
                        remaining_errors = total_of (parse_errors error_lines')
                    in (Inr 0,
                        say (Results total_errors remaining_errors
                               (int total_errors - int remaining_errors) files_modified) s5))))"

text \<open>
  \<open>sys.exit(main())\<close>: the exit status is the value \<open>main\<close> returns, and 1 when an exception
  leaves \<open>main\<close>.
\<close>

definition exit_status :: "checker \<Rightarrow> state \<Rightarrow> int" where
  "exit_status ck s = (case fst (main ck s) of Inr rc \<Rightarrow> rc | Inl e \<Rightarrow> 1)"

section \<open>Notions used to state the properties\<close>

subsection \<open>What a \<open>fix_\<close> function leaves in the file and returns\<close>


text \<open>A state with one file, which can be read and written.\<close>

definition one_file :: "string \<Rightarrow> string \<Rightarrow> state" where
  "one_file p t =
     \<lparr>files = [p \<mapsto> \<lparr>text_of = t, readable = True, writable = True\<rparr>], trace = [], printed = []\<rparr>"

subsection \<open>What a pattern matches, without the order of the search\<close>


subsection \<open>Arguments of \<open>insert\<close> and \<open>update\<close>\<close>





subsection \<open>Lines of the checker\<close>






subsection \<open>Checkers\<close>

text \<open>A checker that cannot be started, and a checker with its exit status replaced by 0.\<close>

definition broken_checker :: checker where
  "broken_checker fs = Raised"

definition ignore_status :: "checker \<Rightarrow> checker" where
  "ignore_status ck fs = (case ck fs of Raised \<Rightarrow> Raised | Completed rc err out \<Rightarrow> Completed 0 err out)"

subsection \<open>Example texts\<close>

text \<open>
  A \<open>catch\<close> block inside another, each with a logging call for its own variable, and the
  text after one and after two runs of \<open>fix_error_handling\<close>.
\<close>

definition nested_catch :: string where
  "nested_catch = ''catch (e) { catch (f) { console.error(x, e); console.error(y, f)''"

definition nested_catch_once :: string where
  "nested_catch_once = ''catch (e) {\<newline>    const err = e instanceof Error ? e : new Error(String(e)); catch (f) { console.error(x, err); console.error(y, f)''"

definition nested_catch_twice :: string where
  "nested_catch_twice = ''catch (e) {\<newline>    const err = e instanceof Error ? e : new Error(String(e)); catch (f) {\<newline>    const err = f instanceof Error ? f : new Error(String(f)); console.error(x, err); console.error(y, err)''"

text \<open>A query of the kind the first pattern looks for, and the one of the specification.\<close>

definition users_query :: string where
  "users_query = ''const { data: users } = await supabase.from('users').select('*');''"

definition source_query :: string where
  "source_query = ''const { data } = await source.from('users').select('*');''"

subsection \<open>Reads, writes and ranking\<close>



text \<open>
  Lines of a checker that reports three diagnostics for \<open>a.ts\<close>, one for \<open>b.ts\<close> and three
  for \<open>c.ts\<close>, the files occurring first in that order.
\<close>

definition ranking_lines :: "string list" where
  "ranking_lines =
     [''a.ts(1,1): error TS1: m'', ''b.ts(1,1): error TS1: m'', ''a.ts(2,1): error TS1: m'',
      ''c.ts(1,1): error TS1: m'', ''c.ts(2,1): error TS1: m'', ''a.ts(3,1): error TS1: m'',
      ''c.ts(3,1): error TS1: m'']"


subsection \<open>A run that meets a failure\<close>






subsection \<open>Sites that a substitution rewrites\<close>




section \<open>Lemmas about the matcher and the substitution\<close>





declare re_sub.simps [simp del]












lemma cls_ok_Word [simp]: "cls_ok Word = is_word"
  by (rule ext) simp














lemma not_digit [simp]: "\<not> is_digit CHR '',''" "\<not> is_digit CHR '')''" "\<not> is_digit CHR '':''"
  by (simp_all add: is_digit_def)

lemma cls_ok_Digit [simp]: "cls_ok Digit = is_digit"
  by (rule ext) simp










lemma list_all_digit: "list_all (cls_ok Digit) t = list_all is_digit t"
  by simp



lemma parse_errors_Nil: "parse_errors [] = []"
  by (simp add: parse_errors_def)

lemma run_tsc_ignore_status: "run_tsc (ignore_status ck) s = run_tsc ck s"
  by (simp add: run_tsc_def ignore_status_def split: tsc.splits)

lemma main_ignore_status: "main (ignore_status ck) s = main ck s"
  unfolding main_def run_tsc_ignore_status ..

lemma main_Raised:
  "ck (files s) = Raised \<Longrightarrow>
   main ck s = (Inr 0, s\<lparr>printed := printed s @ [Running, TscError, Found 0 0, NoErrors]\<rparr>)"
  by (simp add: main_def run_tsc_def say_def parse_errors_Nil total_of_def)

lemma main_Inr: "main ck s = (Inr rc, s') \<Longrightarrow> rc = 0"
  by (auto simp: main_def Let_def split: prod.splits if_splits sum.splits)

lemma main_fst_Inr: "fst (main ck s) = Inr rc \<Longrightarrow> rc = 0"
  using main_Inr[of ck s rc "snd (main ck s)"] by (metis prod.collapse)


section \<open>Lemmas about the ranking and the files\<close>

lemma sorted_files_of_mset: "mset (sorted_files_of g) = mset g"
  by (simp add: sorted_files_of_def)

lemma sorted_files_of_desc:
  "sorted_wrt (\<lambda>x y. length (snd y) \<le> length (snd x)) (sorted_files_of g)"
proof -
  have "sorted (map (\<lambda>x. length (snd x)) (sort_key (\<lambda>x. length (snd x)) (rev g)))"
    by (rule sorted_sort_key)
  then have "sorted_wrt (\<lambda>x y. length (snd x) \<le> length (snd y)) (sort_key (\<lambda>x. length (snd x)) (rev g))"
    by (simp add: sorted_map)
  then show ?thesis by (simp add: sorted_files_of_def sorted_wrt_rev)
qed

lemma sorted_files_of_stable:
  "filter (\<lambda>x. length (snd x) = k) (sorted_files_of g) = filter (\<lambda>x. length (snd x) = k) g"
proof -
  have "filter (\<lambda>x. length (snd x) = k) (sort_key (\<lambda>x. length (snd x)) (rev g))
        = filter (\<lambda>x. length (snd x) = k) (rev g)"
    by (rule sort_key_stable)
  then show ?thesis by (simp add: sorted_files_of_def rev_filter[symmetric])
qed




section \<open>Lemmas about a run that meets a failure\<close>















section \<open>Lemmas about the counts\<close>






















section \<open>The properties\<close>

subsection \<open>Rules applied twice\<close>

text \<open>
  C1 (idempotence of the rules). The claim asks that a rule applied to its own result
  returns 0 and changes nothing. \<open>fix_error_handling\<close> does not: on a \<open>catch\<close> block inside
  another, the first run rewrites the outer block (count 1), and only then does the pattern
  find the inner block, which the second run rewrites (count 1 again, and a new text).
\<close>

theorem error_narrowing_not_idempotent:
  "fst (fix_error_handling ''f.ts'' (one_file ''f.ts'' nested_catch)) = Inr 1 \<and>
   map_option text_of (files (snd (fix_error_handling ''f.ts'' (one_file ''f.ts'' nested_catch))) ''f.ts'')
     = Some nested_catch_once \<and>
   fst (fix_error_handling ''f.ts'' (one_file ''f.ts'' nested_catch_once)) = Inr 1 \<and>
   map_option text_of (files (snd (fix_error_handling ''f.ts'' (one_file ''f.ts'' nested_catch_once))) ''f.ts'')
     = Some nested_catch_twice \<and>
   nested_catch_twice \<noteq> nested_catch_once"
  by code_simp

subsection \<open>The binding of an untyped result\<close>

text \<open>
  C2 (the untyped-result binding rule adds an assertion and returns 1). The callback
  \<open>add_type_assertion\<close> puts the statement together again from its groups and adds nothing
  to it: on a query that the pattern matches, the callback counts a fix, the text is the
  same, nothing is written and \<open>fix_supabase_never_types\<close> returns 0; the text has no
  assertion. The text of the specification, with \<open>{ data }\<close> and \<open>source\<close>, is not matched
  by the pattern at all.
\<close>

theorem binding_rule_adds_nothing:
  "fst (fix_supabase_never_types ''f.ts'' (one_file ''f.ts'' users_query)) = Inr 0 \<and>
   trace (snd (fix_supabase_never_types ''f.ts'' (one_file ''f.ts'' users_query))) = [Read ''f.ts''] \<and>
   supabase_rewrite users_query = (users_query, 1) \<and>
   \<not> py_in '' as '' users_query \<and>
   fst (fix_supabase_never_types ''f.ts'' (one_file ''f.ts'' source_query)) = Inr 0 \<and>
   trace (snd (fix_supabase_never_types ''f.ts'' (one_file ''f.ts'' source_query))) = [Read ''f.ts''] \<and>
   supabase_rewrite source_query = (source_query, 0) \<and>
   re_search pattern1 source_query = None"
  by code_simp

subsection \<open>A checker that cannot be started\<close>

text \<open>
  C3, as the claim states it: when the checker cannot be started the run fails. It does not:
  the exit status is 0 and the lines printed end with "No TypeScript errors found!".
\<close>

theorem checker_failure_counterexample:
  "exit_status broken_checker (one_file ''a.ts'' ''x.insert(r)'') = 0 \<and>
   printed (snd (main broken_checker (one_file ''a.ts'' ''x.insert(r)'')))
     = [Running, TscError, Found 0 0, NoErrors]"
  by code_simp

text \<open>
  C3, amended: when \<open>subprocess.run\<close> raises, \<open>run_tsc\<close> prints the error and returns no
  line; \<open>main\<close> then reports that there is no error and returns 0, and no file is read or
  written (the state differs in the printed lines only). The exit status of a checker that
  did run is not looked at: the run is the same as with status 0.
\<close>

theorem checker_failure_not_fatal:
  "(ck (files s) = Raised \<longrightarrow>
      main ck s = (Inr 0, s\<lparr>printed := printed s @ [Running, TscError, Found 0 0, NoErrors]\<rparr>)) \<and>
   main (ignore_status ck) s = main ck s"
  by (simp add: main_Raised main_ignore_status)

theorem checker_failure_not_fatal_witness:
  "broken_checker (files (one_file ''a.ts'' ''x.insert(r)'')) = Raised \<and>
   main broken_checker (one_file ''a.ts'' ''x.insert(r)'') =
     (Inr 0, (one_file ''a.ts'' ''x.insert(r)'')
        \<lparr>printed := printed (one_file ''a.ts'' ''x.insert(r)'') @ [Running, TscError, Found 0 0, NoErrors]\<rparr>)"
  using checker_failure_not_fatal [of broken_checker "one_file ''a.ts'' ''x.insert(r)''"]
  by (simp add: broken_checker_def)

subsection \<open>Arguments that are rewritten\<close>



text \<open>
  A function call, a member-access chain and an argument that has an assertion stay as they
  are; an identifier and an object literal get the assertion.
\<close>

lemma unsound_argument_examples:
  "re_sub insert_update_pattern fix_insert_update ''z.insert(f(x)); w.update(a.b); v.insert(q as T)''
     = (''z.insert(f(x)); w.update(a.b); v.insert(q as T)'', 0) \<and>
   re_sub insert_update_pattern fix_insert_update ''x.insert(row); y.update({ id: k })''
     = (''x.insert(row as any); y.update({ id: k } as any)'', 2)"
  by code_simp

subsection \<open>The lines the parser accepts\<close>




subsection \<open>The exit status\<close>

text \<open>
  C10 (the exit status is 0 on every run that reaches the end of \<open>main\<close>). Every value that
  \<open>main\<close> returns is 0, and so is the exit status then; in particular when the checker
  could not be started.
\<close>

theorem exit_status_zero:
  "(fst (main ck s) = Inr rc \<longrightarrow> rc = 0 \<and> exit_status ck s = 0) \<and>
   (ck (files s) = Raised \<longrightarrow> exit_status ck s = 0)"
  by (auto simp: exit_status_def main_Raised dest: main_fst_Inr)

theorem exit_status_zero_witness:
  "fst (main broken_checker (one_file ''a.ts'' ''x.insert(r)'')) = Inr 0 \<and>
   broken_checker (files (one_file ''a.ts'' ''x.insert(r)'')) = Raised \<and>
   exit_status broken_checker (one_file ''a.ts'' ''x.insert(r)'') = 0"
proof -
  have h1: "fst (main broken_checker (one_file ''a.ts'' ''x.insert(r)'')) = Inr 0" by code_simp
  have h2: "broken_checker (files (one_file ''a.ts'' ''x.insert(r)'')) = Raised"
    by (simp add: broken_checker_def)
  from exit_status_zero [of broken_checker "one_file ''a.ts'' ''x.insert(r)''" 0] h1 h2
  show ?thesis by blast
qed

subsection \<open>The ranking of the files\<close>

text \<open>
  C9 (files are ranked by descending number of diagnostics, ties in the order of first
  occurrence). The sorted list is a permutation of the groups, is descending in the number
  of diagnostics, and keeps the groups with the same number in their order; for three
  diagnostics of \<open>a.ts\<close>, one of \<open>b.ts\<close> and three of \<open>c.ts\<close>, found in that order, the ranking
  is \<open>a.ts\<close>, \<open>c.ts\<close>, \<open>b.ts\<close>.
\<close>

theorem aggregation_ranking:
  "mset (sorted_files_of g) = mset g \<and>
   sorted_wrt (\<lambda>x y. length (snd y) \<le> length (snd x)) (sorted_files_of g) \<and>
   filter (\<lambda>x. length (snd x) = k) (sorted_files_of g) = filter (\<lambda>x. length (snd x) = k) g \<and>
   map (\<lambda>x. (fst x, length (snd x))) (parse_errors ranking_lines)
     = [(''a.ts'', 3), (''b.ts'', 1), (''c.ts'', 3)] \<and>
   map (\<lambda>x. (fst x, length (snd x))) (sorted_files_of (parse_errors ranking_lines))
     = [(''a.ts'', 3), (''c.ts'', 3), (''b.ts'', 1)]"
proof -
  have "map (\<lambda>x. (fst x, length (snd x))) (parse_errors ranking_lines)
     = [(''a.ts'', 3), (''b.ts'', 1), (''c.ts'', 3)]" by code_simp
  moreover have "map (\<lambda>x. (fst x, length (snd x))) (sorted_files_of (parse_errors ranking_lines))
     = [(''a.ts'', 3), (''c.ts'', 3), (''b.ts'', 1)]" by code_simp
  ultimately show ?thesis
    using sorted_files_of_mset sorted_files_of_desc sorted_files_of_stable by blast
qed

subsection \<open>Reads and writes of one file\<close>




subsection \<open>A file that cannot be written\<close>




subsection \<open>What the returned count counts\<close>




end
